theory Spec2Isabelle
  imports Complex_Main "HOL-Library.Monad_Syntax"
begin

section \<open>Loss functions (megengine/functional/loss.py)\<close>

text \<open>
  The loss functions are written in terms of element-wise tensor arithmetic and a mean over
  all elements. A tensor is represented by the sequence of its elements in row-major order;
  elements are real numbers, so the rounding of the device's float32 arithmetic is not part
  of the model. Binary operators combine two operands of the same shape, as the docstrings of
  the loss functions require (``label: same shape as pred'').
\<close>

type_synonym tensor_data = "real list"

text \<open>
  Modelled from the spec: the element-wise operators and the reduction used by loss.py
  (imported from functional/elemwise.py and the tensor's arithmetic methods, which are not
  among the source files). They are the operators their names denote, applied per element.
\<close>

definition t_sub :: "tensor_data \<Rightarrow> tensor_data \<Rightarrow> tensor_data" where
  "t_sub a b = map2 (\<lambda>x y. x - y) a b"

definition t_add :: "tensor_data \<Rightarrow> tensor_data \<Rightarrow> tensor_data" where
  "t_add a b = map2 (\<lambda>x y. x + y) a b"

definition t_mul :: "tensor_data \<Rightarrow> tensor_data \<Rightarrow> tensor_data" where
  "t_mul a b = map2 (\<lambda>x y. x * y) a b"

definition scalar_rsub :: "real \<Rightarrow> tensor_data \<Rightarrow> tensor_data" where
  "scalar_rsub c a = map (\<lambda>x. c - x) a"

definition scalar_rmul :: "real \<Rightarrow> tensor_data \<Rightarrow> tensor_data" where
  "scalar_rmul c a = map (\<lambda>x. c * x) a"

definition t_pow :: "tensor_data \<Rightarrow> nat \<Rightarrow> tensor_data" where
  "t_pow a n = map (\<lambda>x. x ^ n) a"

definition t_abs :: "tensor_data \<Rightarrow> tensor_data" where
  "t_abs a = map abs a"

definition t_log :: "tensor_data \<Rightarrow> tensor_data" where
  "t_log a = map ln a"

text \<open>\<open>x.mean()\<close> without an axis reduces over all elements to a tensor of shape \<open>(1,)\<close>.\<close>

definition t_mean :: "tensor_data \<Rightarrow> tensor_data" where
  "t_mean a = [sum_list a / real (length a)]"

text \<open>
  \<^verbatim>\<open>
  def l1_loss(pred, label):
      diff = pred - label
      return abs(diff).mean()
  \<close>
\<close>

definition l1_loss :: "tensor_data \<Rightarrow> tensor_data \<Rightarrow> tensor_data" where
  "l1_loss pred label = (let diff = t_sub pred label in t_mean (t_abs diff))"

text \<open>
  \<^verbatim>\<open>
  def square_loss(pred, label):
      diff = pred - label
      return (diff ** 2).mean()
  \<close>
\<close>

definition square_loss :: "tensor_data \<Rightarrow> tensor_data \<Rightarrow> tensor_data" where
  "square_loss pred label = (let diff = t_sub pred label in t_mean (t_pow diff 2))"

text \<open>
  \<^verbatim>\<open>
  def binary_cross_entropy(pred, label):
      return -1.0 * (label * log(pred) + (1.0 - label) * log(1 - pred)).mean()
  \<close>
  The method call binds tighter than the product: the mean is taken first and then scaled
  by \<open>-1.0\<close>.
\<close>

definition binary_cross_entropy :: "tensor_data \<Rightarrow> tensor_data \<Rightarrow> tensor_data" where
  "binary_cross_entropy pred label =
     scalar_rmul (- 1)
       (t_mean (t_add (t_mul label (t_log pred))
                      (t_mul (scalar_rsub 1 label) (t_log (scalar_rsub 1 pred)))))"


section \<open>The Tensor facade (megengine/tensor.py)\<close>

text \<open>
  Python objects have identity, so the facade is modelled over an explicit store. There are
  three kinds of object: the facade itself (class \<open>megengine.Tensor\<close>, with the attributes
  \<open>__wrapped__\<close> and \<open>q_dict\<close>), the handle it wraps (the core tensor class, with the
  attribute \<open>_data\<close>) and the device-resident raw tensor a handle's \<open>_data\<close> refers to.
  A reference is the address of an object; \<open>id(obj)\<close> is that address.
\<close>

type_synonym ref = nat
type_synonym device = string
type_synonym dtype = string

datatype pyval = PyNone | PyInt int | PyFloat real | PyStr string

type_synonym qdict = "(string \<times> pyval) list"

datatype py_error = AttributeError string | AssertionError string

record 'a ndarray =
  arr_shape :: "nat list"
  arr_dtype :: dtype
  arr_values :: "'a list"

record 'a raw_tensor =
  rt_array :: "'a ndarray"
  rt_device :: device

text \<open>An attribute of a Python instance is absent until it is first assigned.\<close>

record facade =
  wrapped :: "ref option"
  q_dict :: "qdict option"

text \<open>
  The interpreter state the facade lives in. \<open>default_device\<close> is the process-wide default
  read by \<open>get_default_device()\<close>; \<open>dmap_callback\<close> is the class attribute
  \<open>Tensor.dmap_callback\<close>; \<open>convert_kernel\<close> is the native dtype conversion (source dtype,
  target dtype, element), which is opaque to the Python layer.
\<close>

record 'a runtime =
  default_device :: device
  dmap_callback :: "(device \<Rightarrow> device) option"
  convert_kernel :: "dtype \<Rightarrow> dtype \<Rightarrow> 'a \<Rightarrow> 'a"
  raw_tensors :: "ref \<rightharpoonup> 'a raw_tensor"
  handles :: "ref \<rightharpoonup> ref"
  facades :: "ref \<rightharpoonup> facade"
  next_ref :: ref

text \<open>The pickled state: the dictionary built by \<open>__getstate__\<close>, one field per key.\<close>

record 'a tensor_state =
  st_data :: "'a ndarray"
  st_device :: string
  st_dtype :: dtype
  st_qdict :: qdict

subsection \<open>Collaborators outside tensor.py\<close>

text \<open>
  Modelled from the spec: the process-wide default device of megengine/device.py (not among
  the source files), ``exposed as a simple get/set collaborator''. A device is represented
  by its canonical string form, so \<open>str(device)\<close> is the identity.
\<close>

definition get_default_device :: "'a runtime \<Rightarrow> device" where
  "get_default_device s = default_device s"

definition set_default_device :: "device \<Rightarrow> 'a runtime \<Rightarrow> 'a runtime" where
  "set_default_device d s = s\<lparr>default_device := d\<rparr>"

text \<open>Object allocation: every new object gets the next unused address.\<close>

definition alloc :: "'a runtime \<Rightarrow> ref \<times> 'a runtime" where
  "alloc s = (next_ref s, s\<lparr>next_ref := Suc (next_ref s)\<rparr>)"

definition new_object :: "'a runtime \<Rightarrow> ref \<times> 'a runtime" where
  "new_object s =
     (let (r, s1) = alloc s
      in (r, s1\<lparr>facades := (facades s1)(r \<mapsto> \<lparr>wrapped = None, q_dict = None\<rparr>)\<rparr>))"

definition the_object :: "'a runtime \<Rightarrow> ref \<Rightarrow> facade" where
  "the_object s r =
     (case facades s r of None \<Rightarrow> \<lparr>wrapped = None, q_dict = None\<rparr> | Some f \<Rightarrow> f)"

definition set_q_dict :: "'a runtime \<Rightarrow> ref \<Rightarrow> qdict \<Rightarrow> 'a runtime" where
  "set_q_dict s self q =
     s\<lparr>facades := (facades s)(self \<mapsto> (the_object s self)\<lparr>q_dict := Some q\<rparr>)\<rparr>"

definition set_wrapped :: "'a runtime \<Rightarrow> ref \<Rightarrow> ref \<Rightarrow> 'a runtime" where
  "set_wrapped s self h =
     s\<lparr>facades := (facades s)(self \<mapsto> (the_object s self)\<lparr>wrapped := Some h\<rparr>)\<rparr>"

text \<open>
  Modelled from the spec: the base class \<open>megengine.core.Tensor\<close>, the raw tensor and the
  core handle class (not among the source files). Spec 3 and 4.5: a facade wraps exactly one
  handle; every construction path takes (data, dtype, device); a handle's buffer is never
  mutated in place, a new value is always a brand-new buffer. Constructing from host data
  converts it to the requested dtype, places it on the device and wraps a new handle for it;
  constructing from an existing handle wraps that handle.
\<close>

definition astype :: "(dtype \<Rightarrow> dtype \<Rightarrow> 'a \<Rightarrow> 'a) \<Rightarrow> dtype \<Rightarrow> 'a ndarray \<Rightarrow> 'a ndarray" where
  "astype conv d a =
     (if arr_dtype a = d then a
      else \<lparr>arr_shape = arr_shape a, arr_dtype = d,
            arr_values = map (conv (arr_dtype a) d) (arr_values a)\<rparr>)"

definition put_raw :: "'a runtime \<Rightarrow> 'a ndarray \<Rightarrow> device \<Rightarrow> ref \<times> 'a runtime" where
  "put_raw s a dev =
     (let (r, s1) = alloc s
      in (r, s1\<lparr>raw_tensors := (raw_tensors s1)(r \<mapsto> \<lparr>rt_array = a, rt_device = dev\<rparr>)\<rparr>))"

definition new_handle :: "'a runtime \<Rightarrow> ref \<Rightarrow> ref \<times> 'a runtime" where
  "new_handle s data_ref =
     (let (h, s1) = alloc s
      in (h, s1\<lparr>handles := (handles s1)(h \<mapsto> data_ref)\<rparr>))"

datatype 'a init_data = FromArray "'a ndarray" | FromHandle ref

definition base_init ::
  "'a runtime \<Rightarrow> ref \<Rightarrow> 'a init_data \<Rightarrow> dtype option \<Rightarrow> device \<Rightarrow> 'a runtime" where
  "base_init s self data dtype dev =
     (case data of
        FromArray a \<Rightarrow>
          (let a' = (case dtype of None \<Rightarrow> a | Some d \<Rightarrow> astype (convert_kernel s) d a);
               (r, s1) = put_raw s a' dev;
               (h, s2) = new_handle s1 r
           in set_wrapped s2 self h)
      | FromHandle h \<Rightarrow> set_wrapped s self h)"

text \<open>
  Modelled from the spec: the base class's read-only properties \<open>numpy()\<close>, \<open>device\<close> and
  \<open>dtype\<close> (spec 3: a handle carries dtype, shape, device and its resident data).
\<close>

definition raw_of :: "'a runtime \<Rightarrow> ref \<Rightarrow> 'a raw_tensor option" where
  "raw_of s self = do {
     f \<leftarrow> facades s self;
     h \<leftarrow> wrapped f;
     r \<leftarrow> handles s h;
     raw_tensors s r
   }"

definition numpy :: "'a runtime \<Rightarrow> ref \<Rightarrow> 'a ndarray option" where
  "numpy s self = map_option rt_array (raw_of s self)"

definition device_of :: "'a runtime \<Rightarrow> ref \<Rightarrow> device option" where
  "device_of s self = map_option rt_device (raw_of s self)"

definition dtype_of :: "'a runtime \<Rightarrow> ref \<Rightarrow> dtype option" where
  "dtype_of s self = map_option (\<lambda>r. arr_dtype (rt_array r)) (raw_of s self)"

definition py_id :: "ref \<Rightarrow> int" where
  "py_id r = int r"

subsection \<open>class Tensor\<close>

text \<open>
  \<^verbatim>\<open>
  def __init__(self, data, dtype=None, device=None):
      if device is None:
          device = get_default_device()
      self.q_dict = {"mode": None, "scale": None, "zero_point": None}
      super().__init__(data, dtype=dtype, device=device)
  \<close>
\<close>

definition Tensor_init ::
  "'a runtime \<Rightarrow> ref \<Rightarrow> 'a init_data \<Rightarrow> dtype option \<Rightarrow> device option \<Rightarrow> 'a runtime" where
  "Tensor_init s self data dtype dev =
     (let device = (case dev of None \<Rightarrow> get_default_device s | Some d \<Rightarrow> d);
          s1 = set_q_dict s self
                 [(''mode'', PyNone), (''scale'', PyNone), (''zero_point'', PyNone)]
      in base_init s1 self data dtype device)"

text \<open>The call \<open>Tensor(data, dtype, device)\<close>: a new object, then \<open>__init__\<close> on it.\<close>

definition Tensor_new ::
  "'a runtime \<Rightarrow> 'a init_data \<Rightarrow> dtype option \<Rightarrow> device option \<Rightarrow> ref \<times> 'a runtime" where
  "Tensor_new s data dtype dev =
     (let (self, s1) = new_object s in (self, Tensor_init s1 self data dtype dev))"

text \<open>
  \<^verbatim>\<open>
  @property
  def requires_grad(self):
      raise AttributeError("requires_grad is reserved for future use")
  \<close>
  and the same body for the setter and the deleter. An operation that raises returns the
  error together with the state it leaves behind.
\<close>

definition requires_grad_get :: "'a runtime \<Rightarrow> ref \<Rightarrow> (py_error + pyval) \<times> 'a runtime" where
  "requires_grad_get s self =
     (Inl (AttributeError ''requires_grad is reserved for future use''), s)"

definition requires_grad_set ::
  "'a runtime \<Rightarrow> ref \<Rightarrow> pyval \<Rightarrow> (py_error + unit) \<times> 'a runtime" where
  "requires_grad_set s self v =
     (Inl (AttributeError ''requires_grad is reserved for future use''), s)"

definition requires_grad_del :: "'a runtime \<Rightarrow> ref \<Rightarrow> (py_error + unit) \<times> 'a runtime" where
  "requires_grad_del s self =
     (Inl (AttributeError ''requires_grad is reserved for future use''), s)"

text \<open>
  \<^verbatim>\<open>
  def __hash__(self):
      return id(self)
  \<close>
\<close>

definition Tensor_hash :: "ref \<Rightarrow> int" where
  "Tensor_hash self = py_id self"

text \<open>
  \<^verbatim>\<open>
  def __getstate__(self):
      state = {"data": self.numpy(), "device": str(self.device),
               "dtype": self.dtype, "qdict": self.q_dict}
      return state
  \<close>
  The result is \<open>None\<close> when \<open>self\<close> is not a fully constructed tensor of the store.
\<close>

definition getstate :: "'a runtime \<Rightarrow> ref \<Rightarrow> 'a tensor_state option" where
  "getstate s self = do {
     data \<leftarrow> numpy s self;
     dev \<leftarrow> device_of s self;
     dt \<leftarrow> dtype_of s self;
     f \<leftarrow> facades s self;
     q \<leftarrow> q_dict f;
     Some \<lparr>st_data = data, st_device = dev, st_dtype = dt, st_qdict = q\<rparr>
   }"

text \<open>
  \<^verbatim>\<open>
  def __setstate__(self, state):
      data = state.pop("data")
      device = state.pop("device")
      if self.dmap_callback is not None:
          assert isinstance(device, str)
          device = self.dmap_callback(device)
      dtype = state.pop("dtype")
      self.q_dict = state.pop("qdict")
      super().__init__(data, dtype=dtype, device=device)
  \<close>
  The device of a \<open>tensor_state\<close> is a string by its type, so the assertion holds.
\<close>

definition setstate :: "'a runtime \<Rightarrow> ref \<Rightarrow> 'a tensor_state \<Rightarrow> 'a runtime" where
  "setstate s self state =
     (let data = st_data state;
          device = st_device state;
          device = (case dmap_callback s of None \<Rightarrow> device | Some f \<Rightarrow> f device);
          dtype = st_dtype state;
          s1 = set_q_dict s self (st_qdict state)
      in base_init s1 self (FromArray data) (Some dtype) device)"

text \<open>
  \<^verbatim>\<open>
  def detach(self):
      Wrapper = type(self)
      Tensor = type(self.__wrapped__)
      return Wrapper(Tensor(self.__wrapped__._data))
  \<close>
\<close>

definition detach :: "'a runtime \<Rightarrow> ref \<Rightarrow> (ref \<times> 'a runtime) option" where
  "detach s self = do {
     f \<leftarrow> facades s self;
     h \<leftarrow> wrapped f;
     data_ref \<leftarrow> handles s h;
     let (h', s1) = new_handle s data_ref;
     Some (Tensor_new s1 (FromHandle h') None None)
   }"

text \<open>
  Modelled from the spec: \<open>apply\<close> on the \<open>Copy\<close> operator, from \<open>core.tensor.core\<close> and
  \<open>core.ops.builtin\<close> (not among the source files). Spec 4.5: a copy across devices always
  produces a new handle with a new owned buffer.
\<close>

definition apply_Copy :: "'a runtime \<Rightarrow> ref \<Rightarrow> device \<Rightarrow> (ref \<times> 'a runtime) option" where
  "apply_Copy s self dev = do {
     a \<leftarrow> numpy s self;
     let (r, s1) = put_raw s a dev;
     let (h, s2) = new_handle s1 r;
     Some (Tensor_new s2 (FromHandle h) None None)
   }"

text \<open>
  \<^verbatim>\<open>
  def to(self, device):
      cn = as_device(device).to_c()
      return apply(Copy(comp_node=cn), self)[0]
  \<close>
\<close>

definition to_device :: "'a runtime \<Rightarrow> ref \<Rightarrow> device \<Rightarrow> (ref \<times> 'a runtime) option" where
  "to_device s self dev = (let cn = dev in apply_Copy s self cn)"

text \<open>
  Modelled from the spec: \<open>_reset\<close> and the in-place product of the base class (not among
  the source files). Spec 5: a buffer is mutated only as a brand-new buffer; the facade is
  rebound to a new handle for it.
\<close>

definition rebind :: "'a runtime \<Rightarrow> ref \<Rightarrow> 'a ndarray \<Rightarrow> device \<Rightarrow> 'a runtime" where
  "rebind s self a dev =
     (let (r, s1) = put_raw s a dev;
          (h, s2) = new_handle s1 r
      in set_wrapped s2 self h)"

definition reset_to :: "'a runtime \<Rightarrow> ref \<Rightarrow> 'a ndarray \<Rightarrow> 'a runtime option" where
  "reset_to s self v = do {
     dt \<leftarrow> dtype_of s self;
     dev \<leftarrow> device_of s self;
     Some (rebind s self (astype (convert_kernel s) dt v) dev)
   }"

definition imul_scalar :: "('a::mult_zero) runtime \<Rightarrow> ref \<Rightarrow> 'a \<Rightarrow> 'a runtime option" where
  "imul_scalar s self c = do {
     a \<leftarrow> numpy s self;
     dev \<leftarrow> device_of s self;
     Some (rebind s self (a\<lparr>arr_values := map (\<lambda>x. x * c) (arr_values a)\<rparr>) dev)
   }"

text \<open>
  \<^verbatim>\<open>
  def set_value(self, value):
      self._reset(value)
  def reset_zero(self):
      self *= 0
  \<close>
\<close>

definition set_value :: "'a runtime \<Rightarrow> ref \<Rightarrow> 'a ndarray \<Rightarrow> 'a runtime option" where
  "set_value s self v = reset_to s self v"

definition reset_zero :: "('a::mult_zero) runtime \<Rightarrow> ref \<Rightarrow> 'a runtime option" where
  "reset_zero s self = imul_scalar s self 0"

subsection \<open>Sequences of operations on tensors\<close>

text \<open>
  The attributes \<open>self.__wrapped__\<close> and \<open>self.__wrapped__._data\<close> as references, to speak
  about which objects two facades share.
\<close>

definition handle_of :: "'a runtime \<Rightarrow> ref \<Rightarrow> ref option" where
  "handle_of s self = do { f \<leftarrow> facades s self; wrapped f }"

definition data_ref_of :: "'a runtime \<Rightarrow> ref \<Rightarrow> ref option" where
  "data_ref_of s self = do { h \<leftarrow> handle_of s self; handles s h }"

text \<open>
  The operations a program can apply to the tensors of a store. An operation on a reference
  that is not an object of the store has no result: a Python program cannot hold such a
  reference.
\<close>

datatype 'a tensor_op =
    OpNew "'a init_data" "dtype option" "device option"
  | OpSetValue ref "'a ndarray"
  | OpResetZero ref
  | OpTo ref device
  | OpDetach ref
  | OpSetState ref "'a tensor_state"
  | OpSetDefaultDevice device

text \<open>The object an operation assigns to, if any; the other operations build new objects.\<close>

fun assigned :: "'a tensor_op \<Rightarrow> ref option" where
  "assigned (OpSetValue r v) = Some r"
| "assigned (OpResetZero r) = Some r"
| "assigned (OpSetState r st) = Some r"
| "assigned (OpNew d dt dev) = None"
| "assigned (OpTo r dev) = None"
| "assigned (OpDetach r) = None"
| "assigned (OpSetDefaultDevice d) = None"

fun exec_op :: "('a::mult_zero) runtime \<Rightarrow> 'a tensor_op \<Rightarrow> 'a runtime option" where
  "exec_op s (OpNew d dt dev) = Some (snd (Tensor_new s d dt dev))"
| "exec_op s (OpSetValue r v) = set_value s r v"
| "exec_op s (OpResetZero r) = reset_zero s r"
| "exec_op s (OpTo r dev) = map_option snd (to_device s r dev)"
| "exec_op s (OpDetach r) = map_option snd (detach s r)"
| "exec_op s (OpSetState r st) =
     (if facades s r = None then None else Some (setstate s r st))"
| "exec_op s (OpSetDefaultDevice d) = Some (set_default_device d s)"

fun exec_ops :: "('a::mult_zero) runtime \<Rightarrow> 'a tensor_op list \<Rightarrow> 'a runtime option" where
  "exec_ops s [] = Some s"
| "exec_ops s (x # xs) = (case exec_op s x of None \<Rightarrow> None | Some s' \<Rightarrow> exec_ops s' xs)"

text \<open>The store at process start, and the stores a program can reach: no object lies at
  or beyond the next unused address.\<close>

definition empty_runtime :: "device \<Rightarrow> (dtype \<Rightarrow> dtype \<Rightarrow> 'a \<Rightarrow> 'a) \<Rightarrow> 'a runtime" where
  "empty_runtime d conv =
     \<lparr>default_device = d, dmap_callback = None, convert_kernel = conv,
      raw_tensors = Map.empty, handles = Map.empty, facades = Map.empty, next_ref = 0\<rparr>"

definition wf_runtime :: "'a runtime \<Rightarrow> bool" where
  "wf_runtime s \<longleftrightarrow>
     (\<forall>r. next_ref s \<le> r \<longrightarrow>
        facades s r = None \<and> handles s r = None \<and> raw_tensors s r = None)"


text \<open>
  A later store extends an earlier one: it is well formed, and the handles and raw tensors
  of the earlier store are still there, unchanged.
\<close>

definition frame :: "'a runtime \<Rightarrow> 'a runtime \<Rightarrow> bool" where
  "frame s s' \<longleftrightarrow>
     next_ref s \<le> next_ref s' \<and> wf_runtime s' \<and>
     (\<forall>r<next_ref s. handles s' r = handles s r \<and> raw_tensors s' r = raw_tensors s r)"

text \<open>A concrete store: one tensor built from a two-element integer array at process start.\<close>

definition demo_array :: "int ndarray" where
  "demo_array = \<lparr>arr_shape = [2], arr_dtype = ''int32'', arr_values = [1, 2]\<rparr>"

definition demo_runtime :: "int runtime" where
  "demo_runtime =
     snd (Tensor_new (empty_runtime ''cpu0'' (\<lambda>src dst x. x)) (FromArray demo_array) None None)"


section \<open>Random sampling (megengine/random/distribution.py)\<close>

text \<open>
  \<open>uniform\<close> draws a seed from the process-wide seed generator, builds the size tensor and
  applies the \<open>UniformRNG\<close> operator. The seed generator and the operator's kernel are not
  among the source files and are parameters of the model: \<open>next_seed\<close> steps the
  generator, and \<open>unit_sample seed i\<close> is the \<open>i\<close>-th element the kernel produces for
  \<open>seed\<close>. The effects of a call are recorded in order, to say what has happened when an
  error is raised.
\<close>

datatype rng_event =
    DrawSeed nat
  | ConstructTensor "nat list" dtype
  | ApplyUniformRNG nat "nat list"

record 'g rng_world =
  seed_gen :: 'g
  events :: "rng_event list"

definition emit :: "rng_event \<Rightarrow> 'g rng_world \<Rightarrow> 'g rng_world" where
  "emit e w = w\<lparr>events := events w @ [e]\<rparr>"

text \<open>\<open>low + (high - low) * output\<close>: a scalar with a tensor, element by element.\<close>

definition affine :: "real \<Rightarrow> real \<Rightarrow> real ndarray \<Rightarrow> real ndarray" where
  "affine low high out =
     out\<lparr>arr_values := map (\<lambda>u. low + (high - low) * u) (arr_values out)\<rparr>"

text \<open>
  Modelled from the spec: the output of \<open>apply\<close> on the \<open>UniformRNG\<close> operator for a size
  tensor (spec 4.3: the shape of an output is determined by the operator and its inputs):
  one sample of the kernel per element of the requested shape.
\<close>

definition apply_UniformRNG :: "(nat \<Rightarrow> nat \<Rightarrow> real) \<Rightarrow> nat \<Rightarrow> nat list \<Rightarrow> real ndarray" where
  "apply_UniformRNG unit_sample seed shp =
     \<lparr>arr_shape = shp, arr_dtype = ''float32'',
      arr_values = map (unit_sample seed) [0..<prod_list shp]\<rparr>"

text \<open>
  \<^verbatim>\<open>
  def uniform(low=0, high=1, size=None):
      assert low < high, "Uniform is not defined when low >= high"
      if size is None:
          size = (1,)
      seed = _random_seed_generator().__next__()
      op = UniformRNG(seed=seed)
      size = Tensor(size, dtype="int32")
      (output,) = apply(op, size)
      return low + (high - low) * output
  \<close>
\<close>

definition uniform ::
  "('g \<Rightarrow> nat \<times> 'g) \<Rightarrow> (nat \<Rightarrow> nat \<Rightarrow> real) \<Rightarrow> real \<Rightarrow> real \<Rightarrow> nat list option \<Rightarrow>
   'g rng_world \<Rightarrow> (py_error + real ndarray) \<times> 'g rng_world" where
  "uniform next_seed unit_sample low high size_arg w =
     (if \<not> low < high
      then (Inl (AssertionError ''Uniform is not defined when low >= high''), w)
      else
        let shp = (case size_arg of None \<Rightarrow> [1] | Some sz \<Rightarrow> sz);
            (seed, g) = next_seed (seed_gen w);
            w1 = emit (DrawSeed seed) (w\<lparr>seed_gen := g\<rparr>);
            w2 = emit (ConstructTensor shp ''int32'') w1;
            output = apply_UniformRNG unit_sample seed shp;
            w3 = emit (ApplyUniformRNG seed shp) w2
        in (Inr (affine low high output), w3))"


section \<open>The dataflow graph (test/unit/core/test\_megbrain\_graph.py)\<close>

text \<open>
  Modelled from the spec: the dataflow graph of \<open>megengine.core.tensor.megbrain_graph\<close>,
  which is not among the source files; only its test is. Spec 3 and 4.4: a graph is a
  directed acyclic graph of input nodes (fed by a pull callback or an explicit push),
  operator nodes and output nodes (delivering through a push callback, or pulled after the
  run); it is built, then compiled for a set of outputs into an executable bound to the
  transitive input closure of those outputs, and an executable is run any number of times.
  A node is named by its position in the graph; a node only refers to earlier nodes.
\<close>

datatype graph_error =
    InputNotReady | OutputNotReady | DisconnectedOutput | UnsupportedOperator
  | NotBuilding | NotCompiled | NoSuchNode | InvalidStateError

datatype graph_phase = Building | Compiled | Closed

text \<open>
  A pull callback is described by the value it returns on its \<open>k\<close>-th call; a push callback
  completes the future attached to its output node.
\<close>

datatype ('v, 'op) gnode =
    InputNode device dtype "(nat \<Rightarrow> 'v) option"
  | OperatorNode 'op "nat list"
  | OutputNode nat bool

record ('v, 'op) graph =
  phase :: graph_phase
  nodes :: "('v, 'op) gnode list"
  pushed :: "nat \<rightharpoonup> 'v"
  runs :: nat
  futures :: "nat \<rightharpoonup> 'v"
  pulled :: "nat \<rightharpoonup> 'v"

record executable =
  exe_nodes :: "nat list"

definition Graph :: "('v, 'op) graph" where
  "Graph = \<lparr>phase = Building, nodes = [], pushed = Map.empty, runs = 0,
            futures = Map.empty, pulled = Map.empty\<rparr>"

definition add_node ::
  "('v, 'op) graph \<Rightarrow> ('v, 'op) gnode \<Rightarrow> graph_error + nat \<times> ('v, 'op) graph" where
  "add_node g n =
     (if phase g \<noteq> Building then Inl NotBuilding
      else Inr (length (nodes g), g\<lparr>nodes := nodes g @ [n]\<rparr>))"

definition input_callback ::
  "(nat \<Rightarrow> 'v) \<Rightarrow> device \<Rightarrow> dtype \<Rightarrow> ('v, 'op) graph \<Rightarrow> graph_error + nat \<times> ('v, 'op) graph" where
  "input_callback cb dev dt g = add_node g (InputNode dev dt (Some cb))"

definition output_callback ::
  "nat \<Rightarrow> ('v, 'op) graph \<Rightarrow> graph_error + nat \<times> ('v, 'op) graph" where
  "output_callback src g =
     (if length (nodes g) \<le> src then Inl NoSuchNode else add_node g (OutputNode src True))"

fun deps :: "('v, 'op) gnode \<Rightarrow> nat list" where
  "deps (InputNode dev dt cb) = []"
| "deps (OperatorNode opr ins) = ins"
| "deps (OutputNode src push) = [src]"

fun is_input :: "('v, 'op) gnode \<Rightarrow> bool" where
  "is_input (InputNode dev dt cb) = True"
| "is_input (OperatorNode opr ins) = False"
| "is_input (OutputNode src push) = False"

fun is_output :: "('v, 'op) gnode \<Rightarrow> bool" where
  "is_output (OutputNode src push) = True"
| "is_output (InputNode dev dt cb) = False"
| "is_output (OperatorNode opr ins) = False"

text \<open>The nodes an output depends on; a path in the graph is no longer than the graph.\<close>

fun reach :: "('v, 'op) gnode list \<Rightarrow> nat \<Rightarrow> nat \<Rightarrow> nat list" where
  "reach ns 0 i = [i]"
| "reach ns (Suc fuel) i =
     i # (if i < length ns then concat (map (reach ns fuel) (deps (ns ! i))) else [])"

definition closure :: "('v, 'op) gnode list \<Rightarrow> nat list \<Rightarrow> nat list" where
  "closure ns outs =
     filter (\<lambda>i. i \<in> set (concat (map (reach ns (length ns)) outs))) [0..<length ns]"

definition compile ::
  "('v, 'op) graph \<Rightarrow> nat list \<Rightarrow> graph_error + executable \<times> ('v, 'op) graph" where
  "compile g outs =
     (if phase g = Closed then Inl NotBuilding
      else if \<not> list_all (\<lambda>i. i < length (nodes g) \<and> is_output (nodes g ! i)) outs
      then Inl NoSuchNode
      else
        let c = closure (nodes g) outs
        in if \<not> list_all (\<lambda>out. list_ex (\<lambda>i. is_input (nodes g ! i)) (closure (nodes g) [out]))
                  outs
           then Inl DisconnectedOutput
           else Inr (\<lparr>exe_nodes = c\<rparr>, g\<lparr>phase := Compiled\<rparr>))"

text \<open>
  One step of a run: the node's value is computed from the values of the earlier nodes
  (\<open>env\<close>); an output node delivers it.
\<close>

definition run_node ::
  "('op \<Rightarrow> 'v list \<Rightarrow> 'v option) \<Rightarrow> nat \<Rightarrow>
   (nat \<rightharpoonup> 'v) \<times> ('v, 'op) graph \<Rightarrow> graph_error + (nat \<rightharpoonup> 'v) \<times> ('v, 'op) graph" where
  "run_node krn i st =
     (let (env, g) = st in
      if length (nodes g) \<le> i then Inl NoSuchNode
      else case nodes g ! i of
        InputNode dev dt cb \<Rightarrow>
          (case cb of
             Some f \<Rightarrow> Inr (env(i \<mapsto> f (runs g)), g)
           | None \<Rightarrow>
               (case pushed g i of
                  None \<Rightarrow> Inl InputNotReady
                | Some v \<Rightarrow> Inr (env(i \<mapsto> v), g\<lparr>pushed := (pushed g)(i := None)\<rparr>)))
      | OperatorNode opr ins \<Rightarrow>
          (if list_ex (\<lambda>j. env j = None) ins then Inl DisconnectedOutput
           else case krn opr (map (\<lambda>j. the (env j)) ins) of
                  None \<Rightarrow> Inl UnsupportedOperator
                | Some v \<Rightarrow> Inr (env(i \<mapsto> v), g))
      | OutputNode src push \<Rightarrow>
          (case env src of
             None \<Rightarrow> Inl DisconnectedOutput
           | Some v \<Rightarrow>
               if push
               then (case futures g i of
                       None \<Rightarrow> Inr (env(i \<mapsto> v), g\<lparr>futures := (futures g)(i \<mapsto> v)\<rparr>)
                     | Some w \<Rightarrow> Inl InvalidStateError)
               else Inr (env(i \<mapsto> v), g\<lparr>pulled := (pulled g)(i \<mapsto> v)\<rparr>)))"

fun run_nodes ::
  "('op \<Rightarrow> 'v list \<Rightarrow> 'v option) \<Rightarrow> nat list \<Rightarrow>
   (nat \<rightharpoonup> 'v) \<times> ('v, 'op) graph \<Rightarrow> graph_error + (nat \<rightharpoonup> 'v) \<times> ('v, 'op) graph" where
  "run_nodes krn [] st = Inr st"
| "run_nodes krn (i # is) st =
     (case run_node krn i st of Inl e \<Rightarrow> Inl e | Inr st' \<Rightarrow> run_nodes krn is st')"

text \<open>\<open>f()\<close>: one synchronous run of the executable (\<open>execute\<close> followed by \<open>wait\<close>).\<close>

definition execute ::
  "('op \<Rightarrow> 'v list \<Rightarrow> 'v option) \<Rightarrow> executable \<Rightarrow> ('v, 'op) graph \<Rightarrow>
   graph_error + ('v, 'op) graph" where
  "execute krn f g =
     (if phase g \<noteq> Compiled then Inl NotCompiled
      else case run_nodes krn (exe_nodes f) (Map.empty, g) of
             Inl e \<Rightarrow> Inl e
           | Inr (env, g') \<Rightarrow> Inr (g'\<lparr>runs := Suc (runs g')\<rparr>))"

text \<open>\<open>y.result()\<close> of the future attached to an output node, once completed.\<close>

definition future_result :: "('v, 'op) graph \<Rightarrow> nat \<Rightarrow> graph_error + 'v" where
  "future_result g out = (case futures g out of None \<Rightarrow> Inl OutputNotReady | Some v \<Rightarrow> Inr v)"

text \<open>
  \<^verbatim>\<open>
  def test_io():
      g = mgb_graph.Graph()
      x = make_dev_tensor(np.random.randn(3).astype("float32"), device="xpux")
      vx, _ = mgb_graph.input_callback(
          lambda: x, device=x.comp_node, dtype=x.dtype, graph=g)
      y = Future()
      v = mgb_graph.output_callback(y.set_result, vx)
      f = g.compile(v)
      f()
      np.testing.assert_equal(x.numpy(), y.result().numpy())
  \<close>
  The program of the test up to the assertion, returning \<open>y.result()\<close>.
\<close>

definition test_io ::
  "('op \<Rightarrow> 'v list \<Rightarrow> 'v option) \<Rightarrow> 'v \<Rightarrow> device \<Rightarrow> dtype \<Rightarrow> graph_error + 'v" where
  "test_io krn x dev dt =
     (let g = Graph in
      case input_callback (\<lambda>k. x) dev dt g of Inl e \<Rightarrow> Inl e
      | Inr (vx, g1) \<Rightarrow>
      case output_callback vx g1 of Inl e \<Rightarrow> Inl e
      | Inr (v, g2) \<Rightarrow>
      case compile g2 [v] of Inl e \<Rightarrow> Inl e
      | Inr (f, g3) \<Rightarrow>
      case execute krn f g3 of Inl e \<Rightarrow> Inl e
      | Inr g4 \<Rightarrow> future_result g4 v)"


section \<open>Verified properties\<close>

subsection \<open>Loss functions\<close>

lemma sum_list_map_zip_nth:
  "length ys = length xs \<Longrightarrow>
   sum_list (map h (zip xs ys)) = (\<Sum>i<length xs. h (xs ! i, ys ! i))"
proof (induction xs arbitrary: ys)
  case Nil
  then show ?case by simp
next
  case (Cons x xs)
  then obtain y ys' where ys: "ys = y # ys'" by (cases ys) auto
  with Cons have "sum_list (map h (zip xs ys')) = (\<Sum>i<length xs. h (xs ! i, ys' ! i))"
    by simp
  then show ?case
    using ys by (simp add: sum.lessThan_Suc_shift del: sum.lessThan_Suc)
qed

lemma l1_loss_general:
  "length label = length pred \<Longrightarrow>
   l1_loss pred label = [(\<Sum>i<length pred. \<bar>pred ! i - label ! i\<bar>) / real (length pred)]"
  by (simp add: l1_loss_def t_mean_def t_abs_def t_sub_def sum_list_map_zip_nth)

lemma square_loss_general:
  "length label = length pred \<Longrightarrow>
   square_loss pred label = [(\<Sum>i<length pred. (pred ! i - label ! i)\<^sup>2) / real (length pred)]"
  by (simp add: square_loss_def t_mean_def t_pow_def t_sub_def sum_list_map_zip_nth)

lemma binary_cross_entropy_general:
  assumes len: "length label = length pred"
  shows "binary_cross_entropy pred label =
    [(\<Sum>i<length pred. - (label ! i * ln (pred ! i) + (1 - label ! i) * ln (1 - pred ! i)))
      / real (length pred)]"
proof -
  let ?h = "\<lambda>(l, p). l * ln p + (1 - l) * ln (1 - p)"
  have inner: "t_add (t_mul label (t_log pred))
                 (t_mul (scalar_rsub 1 label) (t_log (scalar_rsub 1 pred)))
      = map ?h (zip label pred)"
    using len
    by (induction label pred rule: list_induct2')
       (simp_all add: t_add_def t_mul_def t_log_def scalar_rsub_def)
  have "sum_list (map ?h (zip label pred)) = (\<Sum>i<length label. ?h (label ! i, pred ! i))"
    using len by (intro sum_list_map_zip_nth) simp
  then have "binary_cross_entropy pred label =
      [- ((\<Sum>i<length pred. label ! i * ln (pred ! i) + (1 - label ! i) * ln (1 - pred ! i))
          / real (length pred))]"
    unfolding binary_cross_entropy_def inner
    by (simp add: scalar_rmul_def t_mean_def len)
  then show ?thesis
    by (simp only: sum_negf minus_divide_left)
qed

text \<open>Bounds on \<open>exp\<close> from its Maclaurin expansion, and from them \<open>ln 2\<close> to four digits.\<close>

lemma exp_ge_partial_sum:
  assumes "0 \<le> (x::real)"
  shows "(\<Sum>m<n. x ^ m / fact m) \<le> exp x"
proof -
  obtain t where "exp x = (\<Sum>m<n. x ^ m / fact m) + exp t / fact n * x ^ n"
    using Maclaurin_exp_le[of x n] by blast
  moreover have "0 \<le> exp t / fact n * x ^ n"
    using assms by simp
  ultimately show ?thesis by linarith
qed

lemma exp_le_partial_sum:
  assumes "0 \<le> (x::real)" "x \<le> 1"
  shows "exp x \<le> (\<Sum>m<n. x ^ m / fact m) + 3 / fact n * x ^ n"
proof -
  obtain t where t: "\<bar>t\<bar> \<le> \<bar>x\<bar>"
      "exp x = (\<Sum>m<n. x ^ m / fact m) + exp t / fact n * x ^ n"
    using Maclaurin_exp_le[of x n] by blast
  have "t \<le> 1" using t(1) assms by linarith
  then have "exp t \<le> exp 1" by simp
  also have "\<dots> \<le> 3" using exp_le by simp
  finally have "exp t / fact n * x ^ n \<le> 3 / fact n * x ^ n"
    using assms by (intro mult_right_mono divide_right_mono) auto
  then show ?thesis using t(2) by linarith
qed

lemma ln2_lower: "(6931 / 10000 :: real) < ln 2"
proof -
  have "exp (6931 / 10000 :: real)
      \<le> (\<Sum>m<8. (6931 / 10000) ^ m / fact m) + 3 / fact 8 * (6931 / 10000) ^ 8"
    by (rule exp_le_partial_sum) simp_all
  also have "\<dots> < 2"
    by (simp add: lessThan_nat_numeral lessThan_Suc fact_numeral power_numeral_reduce)
  finally have "exp (6931 / 10000 :: real) < exp (ln 2)" by simp
  then show ?thesis by (simp only: exp_less_cancel_iff)
qed

lemma ln2_upper: "ln 2 < (6932 / 10000 :: real)"
proof -
  have "(2::real) < (\<Sum>m<8. (6932 / 10000) ^ m / fact m)"
    by (simp add: lessThan_nat_numeral lessThan_Suc fact_numeral power_numeral_reduce)
  also have "\<dots> \<le> exp (6932 / 10000 :: real)"
    by (rule exp_ge_partial_sum) simp
  finally have "exp (ln 2) < exp (6932 / 10000 :: real)" by simp
  then show ?thesis by (simp only: exp_less_cancel_iff)
qed

lemma binary_cross_entropy_example:
  "binary_cross_entropy [1 / 2, 1 / 2] [1, 1] = [ln 2]"
  by (simp add: binary_cross_entropy_def scalar_rmul_def t_mean_def t_add_def t_mul_def
      t_log_def scalar_rsub_def ln_div)

text \<open>
  C6. For a prediction and a label of the same non-zero number of elements, \<open>l1_loss\<close>
  returns the one-element tensor holding the mean of \<open>|pred - label|\<close> over all elements;
  for \<open>pred = [3,3,3,3]\<close> and \<open>label = [2,8,6,1]\<close> it returns \<open>2.75\<close>.
\<close>

theorem l1_loss_mean_abs:
  "(length label = length pred \<and> pred \<noteq> [] \<longrightarrow>
      l1_loss pred label =
        [(\<Sum>i<length pred. \<bar>pred ! i - label ! i\<bar>) / real (length pred)])
   \<and> l1_loss [3, 3, 3, 3] [2, 8, 6, 1] = [2.75]"
proof
  show "length label = length pred \<and> pred \<noteq> [] \<longrightarrow>
      l1_loss pred label =
        [(\<Sum>i<length pred. \<bar>pred ! i - label ! i\<bar>) / real (length pred)]"
    by (simp add: l1_loss_general)
  show "l1_loss [3, 3, 3, 3] [2, 8, 6, 1] = [2.75]"
    by (simp add: l1_loss_def t_mean_def t_abs_def t_sub_def)
qed

theorem l1_loss_mean_abs_witness:
  "length [4, 3 :: real] = length [1, 5 :: real] \<and> [1, 5 :: real] \<noteq> []
   \<and> l1_loss [1, 5] [4, 3] = [5 / 2]"
  using l1_loss_mean_abs [of "[4, 3]" "[1, 5]"]
  by (simp add: lessThan_Suc numeral_2_eq_2)

text \<open>
  C7. For a prediction and a label of the same non-zero number of elements, \<open>square_loss\<close>
  returns the one-element tensor holding the mean of \<open>(pred - label)\<^sup>2\<close> over all elements;
  for \<open>pred = [3,3,3,3]\<close> and \<open>label = [2,8,6,1]\<close> it returns \<open>9.75\<close>.
\<close>

theorem square_loss_mean_square:
  "(length label = length pred \<and> pred \<noteq> [] \<longrightarrow>
      square_loss pred label =
        [(\<Sum>i<length pred. (pred ! i - label ! i)\<^sup>2) / real (length pred)])
   \<and> square_loss [3, 3, 3, 3] [2, 8, 6, 1] = [9.75]"
proof
  show "length label = length pred \<and> pred \<noteq> [] \<longrightarrow>
      square_loss pred label =
        [(\<Sum>i<length pred. (pred ! i - label ! i)\<^sup>2) / real (length pred)]"
    by (simp add: square_loss_general)
  show "square_loss [3, 3, 3, 3] [2, 8, 6, 1] = [9.75]"
    by (simp add: square_loss_def t_mean_def t_pow_def t_sub_def)
qed

theorem square_loss_mean_square_witness:
  "length [4, 3 :: real] = length [1, 5 :: real] \<and> [1, 5 :: real] \<noteq> []
   \<and> square_loss [1, 5] [4, 3] = [13 / 2]"
  using square_loss_mean_square [of "[4, 3]" "[1, 5]"]
  by (simp add: lessThan_Suc numeral_2_eq_2)

text \<open>
  C8. For a prediction with all elements strictly between 0 and 1 and a label of the same
  non-zero number of elements, \<open>binary_cross_entropy\<close> returns the one-element tensor
  holding the mean of \<open>-(label * log pred + (1 - label) * log (1 - pred))\<close>; for
  \<open>pred = [0.5, 0.5]\<close> and \<open>label = [1, 1]\<close> the value is within \<open>10\<^sup>-\<^sup>4\<close> of \<open>0.6931\<close>.
\<close>

theorem binary_cross_entropy_mean:
  "(length label = length pred \<and> pred \<noteq> [] \<and> (\<forall>p \<in> set pred. 0 < p \<and> p < 1) \<longrightarrow>
      binary_cross_entropy pred label =
        [(\<Sum>i<length pred.
            - (label ! i * ln (pred ! i) + (1 - label ! i) * ln (1 - pred ! i)))
          / real (length pred)])
   \<and> (\<exists>r. binary_cross_entropy [0.5, 0.5] [1, 1] = [r] \<and> \<bar>r - 0.6931\<bar> < 0.0001)"
proof
  show "length label = length pred \<and> pred \<noteq> [] \<and> (\<forall>p \<in> set pred. 0 < p \<and> p < 1) \<longrightarrow>
      binary_cross_entropy pred label =
        [(\<Sum>i<length pred.
            - (label ! i * ln (pred ! i) + (1 - label ! i) * ln (1 - pred ! i)))
          / real (length pred)]"
    using binary_cross_entropy_general by blast
  have "binary_cross_entropy [0.5, 0.5] [1, 1] = [ln 2]"
    using binary_cross_entropy_example by simp
  moreover have "\<bar>ln 2 - (0.6931 :: real)\<bar> < 0.0001"
    using ln2_lower ln2_upper by simp
  ultimately show "\<exists>r. binary_cross_entropy [0.5, 0.5] [1, 1] = [r] \<and> \<bar>r - 0.6931\<bar> < 0.0001"
    by blast
qed

theorem binary_cross_entropy_mean_witness:
  "length [1, 0 :: real] = length [1 / 2, 1 / 2 :: real] \<and> [1 / 2, 1 / 2 :: real] \<noteq> []
   \<and> (0 < (1 / 2 :: real) \<and> (1 / 2 :: real) < 1)
   \<and> binary_cross_entropy [1 / 2, 1 / 2] [1, 0] = [- ln (1 / 2)]"
  using binary_cross_entropy_mean [of "[1, 0]" "[1 / 2, 1 / 2]"]
  by (simp add: lessThan_Suc numeral_2_eq_2)



subsection \<open>The store: allocation and framing\<close>

lemmas store_defs =
  Tensor_new_def Tensor_init_def new_object_def alloc_def set_q_dict_def set_wrapped_def
  the_object_def base_init_def put_raw_def new_handle_def rebind_def get_default_device_def
  set_default_device_def

lemma wf_lt: "wf_runtime s \<Longrightarrow> facades s r = Some f \<Longrightarrow> r < next_ref s"
  "wf_runtime s \<Longrightarrow> handles s r = Some h \<Longrightarrow> r < next_ref s"
  "wf_runtime s \<Longrightarrow> raw_tensors s r = Some x \<Longrightarrow> r < next_ref s"
  unfolding wf_runtime_def by (metis not_le option.distinct(1))+

lemma frame_refl: "wf_runtime s \<Longrightarrow> frame s s"
  by (simp add: frame_def)

lemma frame_trans: "frame s s' \<Longrightarrow> frame s' s'' \<Longrightarrow> frame s s''"
  unfolding frame_def by auto

lemma Tensor_new_frame:
  assumes "wf_runtime s"
  shows "frame s (snd (Tensor_new s d dt dev))"
    and "r < next_ref s \<Longrightarrow> facades (snd (Tensor_new s d dt dev)) r = facades s r"
  using assms
  by (auto simp: frame_def wf_runtime_def store_defs Let_def split: init_data.splits option.splits)

lemma rebind_frame:
  assumes "wf_runtime s" "self < next_ref s"
  shows "frame s (rebind s self a dev)"
    and "r \<noteq> self \<Longrightarrow> facades (rebind s self a dev) r = facades s r"
  using assms
  by (auto simp: frame_def wf_runtime_def store_defs Let_def)

lemma raw_of_SomeD:
  "raw_of s t = Some x \<Longrightarrow>
   \<exists>f h r. facades s t = Some f \<and> wrapped f = Some h \<and> handles s h = Some r \<and> raw_tensors s r = Some x"
  by (auto simp: raw_of_def split: bind_splits)

lemma set_value_frame:
  assumes "wf_runtime s" "set_value s self v = Some s'"
  shows "frame s s'" and "r \<noteq> self \<Longrightarrow> facades s' r = facades s r"
proof -
  from assms(2) obtain dt dev where *: "dtype_of s self = Some dt" "device_of s self = Some dev"
     "s' = rebind s self (astype (convert_kernel s) dt v) dev"
    by (auto simp: set_value_def reset_to_def split: bind_splits)
  from *(1) obtain x where "raw_of s self = Some x" by (auto simp: dtype_of_def)
  then have "self < next_ref s" using assms(1) by (auto dest!: raw_of_SomeD dest: wf_lt)
  then show "frame s s'" "r \<noteq> self \<Longrightarrow> facades s' r = facades s r"
    using rebind_frame[OF assms(1)] * by auto
qed

lemma reset_zero_frame:
  assumes "wf_runtime s" "reset_zero s self = Some s'"
  shows "frame s s'" and "r \<noteq> self \<Longrightarrow> facades s' r = facades s r"
proof -
  from assms(2) obtain a dev where *: "numpy s self = Some a" "device_of s self = Some dev"
     "s' = rebind s self (a\<lparr>arr_values := map (\<lambda>x. x * 0) (arr_values a)\<rparr>) dev"
    by (auto simp: reset_zero_def imul_scalar_def split: bind_splits)
  from *(1) obtain x where "raw_of s self = Some x" by (auto simp: numpy_def)
  then have "self < next_ref s" using assms(1) by (auto dest!: raw_of_SomeD dest: wf_lt)
  then show "frame s s'" "r \<noteq> self \<Longrightarrow> facades s' r = facades s r"
    using rebind_frame[OF assms(1)] * by auto
qed

lemma new_handle_frame:
  assumes "wf_runtime s"
  shows "frame s (snd (new_handle s d))" and "facades (snd (new_handle s d)) = facades s"
  using assms by (auto simp: frame_def wf_runtime_def store_defs)

lemma put_raw_frame:
  assumes "wf_runtime s"
  shows "frame s (snd (put_raw s a dev))" and "facades (snd (put_raw s a dev)) = facades s"
  using assms by (auto simp: frame_def wf_runtime_def store_defs)

lemma frame_wf: "frame s s' \<Longrightarrow> wf_runtime s'"
  by (simp add: frame_def)

lemma frame_next: "frame s s' \<Longrightarrow> next_ref s \<le> next_ref s'"
  by (simp add: frame_def)

lemma detach_frame:
  assumes "wf_runtime s" "detach s self = Some (d, s')"
  shows "frame s s'" and "r < next_ref s \<Longrightarrow> facades s' r = facades s r"
proof -
  from assms(2) obtain dr where s': "Tensor_new (snd (new_handle s dr)) (FromHandle (fst (new_handle s dr))) None None = (d, s')"
    by (auto simp: detach_def Let_def split_beta split: bind_splits)
  let ?s1 = "snd (new_handle s dr)"
  have f1: "frame s ?s1" and e1: "facades ?s1 = facades s" using new_handle_frame[OF assms(1)] by auto
  have s'_eq: "s' = snd (Tensor_new ?s1 (FromHandle (fst (new_handle s dr))) None None)"
    using s' by simp
  have "frame ?s1 s'" unfolding s'_eq by (rule Tensor_new_frame(1)[OF frame_wf[OF f1]])
  with f1 show "frame s s'" by (rule frame_trans)
  assume "r < next_ref s"
  then have "r < next_ref ?s1" using frame_next[OF f1] by simp
  then show "facades s' r = facades s r"
    unfolding s'_eq using Tensor_new_frame(2)[OF frame_wf[OF f1]] e1 by simp
qed

lemma to_device_frame:
  assumes "wf_runtime s" "to_device s self dev = Some (d, s')"
  shows "frame s s'" and "r < next_ref s \<Longrightarrow> facades s' r = facades s r"
proof -
  from assms(2) obtain a where a: "numpy s self = Some a" 
    by (auto simp: to_device_def apply_Copy_def split: bind_splits)
  let ?s1 = "snd (put_raw s a dev)"
  let ?r = "fst (put_raw s a dev)"
  let ?s2 = "snd (new_handle ?s1 ?r)"
  let ?h = "fst (new_handle ?s1 ?r)"
  have s': "Tensor_new ?s2 (FromHandle ?h) None None = (d, s')"
    using assms(2) a by (auto simp: to_device_def apply_Copy_def Let_def split_beta)
  have f1: "frame s ?s1" and e1: "facades ?s1 = facades s" using put_raw_frame[OF assms(1)] by auto
  have f2: "frame ?s1 ?s2" and e2: "facades ?s2 = facades ?s1" using new_handle_frame[OF frame_wf[OF f1]] by auto
  have f12: "frame s ?s2" using f1 f2 by (rule frame_trans)
  have s'_eq: "s' = snd (Tensor_new ?s2 (FromHandle ?h) None None)"
    using s' by simp
  have "frame ?s2 s'" unfolding s'_eq by (rule Tensor_new_frame(1)[OF frame_wf[OF f12]])
  with f12 show "frame s s'" by (rule frame_trans)
  assume "r < next_ref s"
  then have "r < next_ref ?s2" using frame_next[OF f12] by simp
  then show "facades s' r = facades s r"
    unfolding s'_eq using Tensor_new_frame(2)[OF frame_wf[OF f12]] e1 e2 by simp
qed

lemma setstate_frame:
  assumes "wf_runtime s" "self < next_ref s"
  shows "frame s (setstate s self st)"
    and "r \<noteq> self \<Longrightarrow> facades (setstate s self st) r = facades s r"
  using assms
  by (auto simp: setstate_def frame_def wf_runtime_def store_defs Let_def split: option.splits)

lemma exec_op_frame:
  assumes "wf_runtime s" "exec_op s x = Some s'"
  shows "frame s s'"
    and "r < next_ref s \<Longrightarrow> assigned x \<noteq> Some r \<Longrightarrow> facades s' r = facades s r"
proof -
  have "frame s s' \<and> (r < next_ref s \<longrightarrow> assigned x \<noteq> Some r \<longrightarrow> facades s' r = facades s r)"
  proof (cases x)
    case (OpNew d dt dev)
    with assms(2) have "s' = snd (Tensor_new s d dt dev)" by simp
    then show ?thesis using Tensor_new_frame[OF assms(1)] by simp
  next
    case (OpSetValue t v)
    with assms(2) have "set_value s t v = Some s'" by simp
    from set_value_frame[OF assms(1) this] show ?thesis using OpSetValue by auto
  next
    case (OpResetZero t)
    with assms(2) have "reset_zero s t = Some s'" by simp
    from reset_zero_frame[OF assms(1) this] show ?thesis using OpResetZero by auto
  next
    case (OpTo t dev)
    with assms(2) obtain d where "to_device s t dev = Some (d, s')" by auto
    from to_device_frame[OF assms(1) this] show ?thesis by simp
  next
    case (OpDetach t)
    with assms(2) obtain d where "detach s t = Some (d, s')" by auto
    from detach_frame[OF assms(1) this] show ?thesis by simp
  next
    case (OpSetState t st)
    with assms(2) obtain f where f: "facades s t = Some f" and s': "s' = setstate s t st"
      by (auto split: if_splits)
    have "t < next_ref s" using wf_lt(1)[OF assms(1) f] .
    from setstate_frame[OF assms(1) this] show ?thesis using OpSetState s' by auto
  next
    case (OpSetDefaultDevice d)
    then show ?thesis using assms by (auto simp: frame_def wf_runtime_def set_default_device_def)
  qed
  then show "frame s s'"
    and "r < next_ref s \<Longrightarrow> assigned x \<noteq> Some r \<Longrightarrow> facades s' r = facades s r" by auto
qed

lemma exec_ops_frame:
  assumes "wf_runtime s" "exec_ops s xs = Some s'" "r < next_ref s"
    "\<forall>x \<in> set xs. assigned x \<noteq> Some r"
  shows "frame s s' \<and> facades s' r = facades s r"
  using assms
proof (induction xs arbitrary: s)
  case Nil
  then show ?case by (simp add: frame_refl)
next
  case (Cons x xs)
  then obtain s1 where s1: "exec_op s x = Some s1" "exec_ops s1 xs = Some s'"
    by (auto split: option.splits)
  have f1: "frame s s1" and e1: "facades s1 r = facades s r"
    using exec_op_frame[OF Cons.prems(1) s1(1)] Cons.prems by auto
  have "frame s1 s' \<and> facades s' r = facades s1 r"
    using Cons.IH[OF frame_wf[OF f1] s1(2)] Cons.prems frame_next[OF f1] by auto
  then show ?case using f1 e1 frame_trans by metis
qed

lemma raw_of_frame:
  assumes "wf_runtime s" "frame s s'" "facades s' t = facades s t" "raw_of s t = Some x"
  shows "raw_of s' t = Some x"
proof -
  from raw_of_SomeD[OF assms(4)] obtain f h r where
    *: "facades s t = Some f" "wrapped f = Some h" "handles s h = Some r" "raw_tensors s r = Some x"
    by blast
  have "h < next_ref s" "r < next_ref s" using wf_lt assms(1) * by blast+
  then have "handles s' h = Some r" "raw_tensors s' r = Some x"
    using assms(2) * by (auto simp: frame_def)
  then show ?thesis using * assms(3) by (simp add: raw_of_def)
qed

lemma raw_of_Tensor_new_array:
  assumes "Tensor_new s (FromArray a) dt dev = (t, s1)"
  shows "t = next_ref s"
    and "raw_of s1 t =
      Some \<lparr>rt_array = (case dt of None \<Rightarrow> a | Some d \<Rightarrow> astype (convert_kernel s) d a),
            rt_device = (case dev of None \<Rightarrow> default_device s | Some d \<Rightarrow> d)\<rparr>"
    and "next_ref s1 = next_ref s + 3"
  using assms by (auto simp: store_defs raw_of_def Let_def split: option.splits)

lemma Tensor_new_array_wf:
  "wf_runtime s \<Longrightarrow> wf_runtime (snd (Tensor_new s d dt dev))"
  using Tensor_new_frame(1) frame_wf by blast

lemma raw_of_setstate:
  "raw_of (setstate s u st) u =
     Some \<lparr>rt_array = astype (convert_kernel s) (st_dtype st) (st_data st),
           rt_device = (case dmap_callback s of None \<Rightarrow> st_device st | Some f \<Rightarrow> f (st_device st))\<rparr>"
  by (auto simp: setstate_def store_defs raw_of_def Let_def split: option.splits)


lemma detach_result:
  assumes "facades s t = Some f" "wrapped f = Some h" "handles s h = Some r"
  shows "detach s t = Some (Suc (next_ref s),
     s\<lparr>next_ref := Suc (Suc (next_ref s)),
       handles := (handles s)(next_ref s \<mapsto> r),
       facades := (facades s)(Suc (next_ref s) \<mapsto>
          \<lparr>wrapped = Some (next_ref s),
           q_dict = Some [(''mode'', PyNone), (''scale'', PyNone), (''zero_point'', PyNone)]\<rparr>)\<rparr>)"
  using assms by (simp add: detach_def store_defs Let_def)


lemma wf_empty: "wf_runtime (empty_runtime d c)"
  by (simp add: wf_runtime_def empty_runtime_def)

lemma wf_demo: "wf_runtime demo_runtime"
  unfolding demo_runtime_def by (rule Tensor_new_array_wf[OF wf_empty])

lemma demo_eq: "demo_runtime =
   \<lparr>default_device = ''cpu0'', dmap_callback = None, convert_kernel = (\<lambda>src dst x. x),
    raw_tensors = [Suc 0 \<mapsto> \<lparr>rt_array = demo_array, rt_device = ''cpu0''\<rparr>],
    handles = [2 \<mapsto> Suc 0],
    facades = [0 \<mapsto> \<lparr>wrapped = Some 2, q_dict = Some [(''mode'', PyNone), (''scale'', PyNone), (''zero_point'', PyNone)]\<rparr>],
    next_ref = 3\<rparr>"
  by (simp add: demo_runtime_def empty_runtime_def store_defs Let_def eval_nat_numeral)

lemma numpy_demo: "numpy demo_runtime 0 = Some demo_array"
  by (simp add: demo_eq numpy_def raw_of_def)

lemma getstate_demo: "getstate demo_runtime 0 = Some \<lparr>st_data = demo_array, st_device = ''cpu0'', st_dtype = ''int32'',
    st_qdict = [(''mode'', PyNone), (''scale'', PyNone), (''zero_point'', PyNone)]\<rparr>"
  by (simp add: demo_eq getstate_def numpy_def device_of_def dtype_of_def raw_of_def demo_array_def)


subsection \<open>The Tensor facade\<close>

text \<open>
  C2. Pickling a tensor \<open>t\<close> yields the record of \<open>t.numpy()\<close>, \<open>str(t.device)\<close>, \<open>t.dtype\<close>
  and \<open>t.q_dict\<close>; unpickling that record, on any object \<open>u\<close> of any store \<open>s'\<close>, gives a
  tensor with the same numpy value and the same dtype, with the same device string when no
  \<open>dmap_callback\<close> is installed, and with the remapped device string when one is.
\<close>

theorem pickle_roundtrip:
  assumes "getstate s t = Some st"
  shows "numpy s t = Some (st_data st) \<and> device_of s t = Some (st_device st)
       \<and> dtype_of s t = Some (st_dtype st)
       \<and> (\<exists>f. facades s t = Some f \<and> q_dict f = Some (st_qdict st))
       \<and> numpy (setstate s' u st) u = numpy s t
       \<and> dtype_of (setstate s' u st) u = dtype_of s t
       \<and> (dmap_callback s' = None \<longrightarrow> device_of (setstate s' u st) u = device_of s t)
       \<and> (\<forall>f. dmap_callback s' = Some f \<longrightarrow>
             device_of (setstate s' u st) u = Some (f (st_device st)))"
proof -
  from assms obtain x f q where x: "raw_of s t = Some x" "facades s t = Some f" "q_dict f = Some q"
    and st: "st = \<lparr>st_data = rt_array x, st_device = rt_device x,
                   st_dtype = arr_dtype (rt_array x), st_qdict = q\<rparr>"
    by (auto simp: getstate_def numpy_def device_of_def dtype_of_def split: bind_splits)
  have same: "astype (convert_kernel s') (st_dtype st) (st_data st) = st_data st"
    by (simp add: st astype_def)
  show ?thesis
    using x by (simp add: numpy_def device_of_def dtype_of_def raw_of_setstate same) (simp add: st)
qed


theorem pickle_roundtrip_witness:
  "getstate demo_runtime 0 = Some \<lparr>st_data = demo_array, st_device = ''cpu0'', st_dtype = ''int32'',
      st_qdict = [(''mode'', PyNone), (''scale'', PyNone), (''zero_point'', PyNone)]\<rparr>
   \<and> numpy (setstate (empty_runtime ''gpu1'' (\<lambda>src dst x. x + 1)) 7
         \<lparr>st_data = demo_array, st_device = ''cpu0'', st_dtype = ''int32'',
          st_qdict = [(''mode'', PyNone), (''scale'', PyNone), (''zero_point'', PyNone)]\<rparr>) 7
       = Some demo_array
   \<and> dtype_of (setstate (empty_runtime ''gpu1'' (\<lambda>src dst x. x + 1)) 7
         \<lparr>st_data = demo_array, st_device = ''cpu0'', st_dtype = ''int32'',
          st_qdict = [(''mode'', PyNone), (''scale'', PyNone), (''zero_point'', PyNone)]\<rparr>) 7
       = Some ''int32''
   \<and> dmap_callback (empty_runtime ''gpu1'' (\<lambda>src dst x. x + 1) :: int runtime) = None
   \<and> device_of (setstate (empty_runtime ''gpu1'' (\<lambda>src dst x. x + 1)) 7
         \<lparr>st_data = demo_array, st_device = ''cpu0'', st_dtype = ''int32'',
          st_qdict = [(''mode'', PyNone), (''scale'', PyNone), (''zero_point'', PyNone)]\<rparr>) 7
       = Some ''cpu0''
   \<and> dmap_callback (demo_runtime\<lparr>dmap_callback := Some (\<lambda>d. ''gpu0'')\<rparr>) = Some (\<lambda>d. ''gpu0'')
   \<and> device_of (setstate (demo_runtime\<lparr>dmap_callback := Some (\<lambda>d. ''gpu0'')\<rparr>) 0
         \<lparr>st_data = demo_array, st_device = ''cpu0'', st_dtype = ''int32'',
          st_qdict = [(''mode'', PyNone), (''scale'', PyNone), (''zero_point'', PyNone)]\<rparr>) 0
       = Some ''gpu0''"
  using pickle_roundtrip [OF getstate_demo, of "empty_runtime ''gpu1'' (\<lambda>src dst x. x + 1)" 7]
    pickle_roundtrip [OF getstate_demo, of "demo_runtime\<lparr>dmap_callback := Some (\<lambda>d. ''gpu0'')\<rparr>" 0]
    getstate_demo
  by (simp add: empty_runtime_def)

text \<open>
  C3. \<open>t.detach()\<close> returns a new tensor object \<open>d\<close> whose value is \<open>t\<close>'s value at that
  moment; \<open>d\<close> wraps a fresh handle, different from \<open>t\<close>'s, whose \<open>_data\<close> is the very raw
  tensor \<open>t\<close>'s handle refers to; and after any later sequence of operations that does not
  assign to \<open>d\<close> itself (operations on \<open>t\<close> and on every tensor derived from it included),
  the value of \<open>d\<close> is still that value.
\<close>

theorem detach_keeps_value:
  fixes s :: "('a::mult_zero) runtime"
  assumes "wf_runtime s" "numpy s t = Some a"
  shows "\<exists>d s1. detach s t = Some (d, s1) \<and> d \<noteq> t \<and> facades s d = None
      \<and> numpy s1 d = Some a \<and> numpy s1 t = Some a
      \<and> (\<exists>h. handle_of s1 d = Some h \<and> handles s h = None \<and> handle_of s1 t \<noteq> Some h)
      \<and> data_ref_of s1 d = data_ref_of s t \<and> data_ref_of s1 d \<noteq> None
      \<and> (\<forall>xs s2. (\<forall>x \<in> set xs. assigned x \<noteq> Some d) \<and> exec_ops s1 xs = Some s2 \<longrightarrow>
            numpy s2 d = Some a)"
proof -
  from assms(2) obtain x where x: "raw_of s t = Some x" "rt_array x = a"
    by (auto simp: numpy_def)
  from raw_of_SomeD[OF x(1)] obtain f h r where
    *: "facades s t = Some f" "wrapped f = Some h" "handles s h = Some r" "raw_tensors s r = Some x"
    by blast
  define n where "n = next_ref s"
  define s1 where "s1 = s\<lparr>next_ref := Suc (Suc n),
       handles := (handles s)(n \<mapsto> r),
       facades := (facades s)(Suc n \<mapsto>
          \<lparr>wrapped = Some n,
           q_dict = Some [(''mode'', PyNone), (''scale'', PyNone), (''zero_point'', PyNone)]\<rparr>)\<rparr>"
  have det: "detach s t = Some (Suc n, s1)"
    unfolding s1_def n_def by (rule detach_result[OF *(1-3)])
  have lt: "t < n" "h < n" "r < n"
    unfolding n_def using wf_lt assms(1) * by blast+
  have none: "facades s (Suc n) = None" "handles s n = None"
    using assms(1) by (simp_all add: wf_runtime_def n_def)
  have rd: "raw_of s1 (Suc n) = Some x"
    using * lt by (simp add: raw_of_def s1_def)
  have rt: "raw_of s1 t = Some x"
    using * lt by (simp add: raw_of_def s1_def)
  have hd: "handle_of s1 (Suc n) = Some n"
    by (simp add: handle_of_def s1_def)
  have ht: "handle_of s1 t \<noteq> Some n"
    using * lt by (simp add: handle_of_def s1_def)
  have dd: "data_ref_of s1 (Suc n) = Some r"
    by (simp add: data_ref_of_def handle_of_def s1_def)
  have dt: "data_ref_of s t = Some r"
    using * by (simp add: data_ref_of_def handle_of_def)
  have wf1: "wf_runtime s1"
    using detach_frame(1)[OF assms(1) det] by (rule frame_wf)
  have later: "numpy s2 (Suc n) = Some a"
    if "\<forall>x \<in> set xs. assigned x \<noteq> Some (Suc n)" "exec_ops s1 xs = Some s2" for xs s2
  proof -
    have "Suc n < next_ref s1" by (simp add: s1_def)
    from exec_ops_frame[OF wf1 that(2) this that(1)]
    have "frame s1 s2" "facades s2 (Suc n) = facades s1 (Suc n)" by simp_all
    from raw_of_frame[OF wf1 this rd] show ?thesis using x(2) by (simp add: numpy_def)
  qed
  have nd: "numpy s1 (Suc n) = Some a" and nt: "numpy s1 t = Some a"
    using rd rt x(2) by (simp_all add: numpy_def)
  have neq: "Suc n \<noteq> t" using lt by simp
  have hpart: "\<exists>h. handle_of s1 (Suc n) = Some h \<and> handles s h = None \<and> handle_of s1 t \<noteq> Some h"
    using hd none(2) ht by blast
  have dpart: "data_ref_of s1 (Suc n) = data_ref_of s t" "data_ref_of s1 (Suc n) \<noteq> None"
    using dd dt by simp_all
  show ?thesis
    using det neq none(1) nd nt hpart dpart later by blast
qed

theorem detach_keeps_value_witness:
  "wf_runtime demo_runtime \<and> numpy demo_runtime 0 = Some demo_array
   \<and> (\<exists>d s1 s2. detach demo_runtime 0 = Some (d, s1)
         \<and> exec_ops s1 [OpResetZero 0, OpSetDefaultDevice ''gpu0''] = Some s2
         \<and> numpy s2 d = Some demo_array
         \<and> numpy s2 0 = Some (demo_array\<lparr>arr_values := [0, 0]\<rparr>))"
proof -
  from detach_keeps_value[OF wf_demo numpy_demo]
  obtain d s1 where d: "detach demo_runtime 0 = Some (d, s1)"
    and later: "\<forall>xs s2. (\<forall>x \<in> set xs. assigned x \<noteq> Some d) \<and> exec_ops s1 xs = Some s2 \<longrightarrow>
            numpy s2 d = Some demo_array"
    by blast
  have det: "detach demo_runtime 0 = Some (4,
      demo_runtime\<lparr>next_ref := 5, handles := (handles demo_runtime)(3 \<mapsto> Suc 0),
        facades := (facades demo_runtime)(4 \<mapsto> \<lparr>wrapped = Some 3,
           q_dict = Some [(''mode'', PyNone), (''scale'', PyNone), (''zero_point'', PyNone)]\<rparr>)\<rparr>)"
    by (simp add: demo_eq detach_def store_defs Let_def eval_nat_numeral)
  with d have d4: "d = 4" and s1: "s1 = demo_runtime\<lparr>next_ref := 5, handles := (handles demo_runtime)(3 \<mapsto> Suc 0),
        facades := (facades demo_runtime)(4 \<mapsto> \<lparr>wrapped = Some 3,
           q_dict = Some [(''mode'', PyNone), (''scale'', PyNone), (''zero_point'', PyNone)]\<rparr>)\<rparr>"
    by simp_all
  obtain s2 where s2: "exec_ops s1 [OpResetZero 0, OpSetDefaultDevice ''gpu0''] = Some s2"
     and z: "numpy s2 0 = Some (demo_array\<lparr>arr_values := [0, 0]\<rparr>)"
    by (simp add: s1 demo_eq reset_zero_def imul_scalar_def numpy_def device_of_def raw_of_def
        store_defs Let_def demo_array_def eval_nat_numeral)
  have "\<forall>x \<in> set [OpResetZero 0, OpSetDefaultDevice ''gpu0'' :: int tensor_op]. assigned x \<noteq> Some d"
    using d4 by simp
  with later s2 have "numpy s2 d = Some demo_array"
    by blast
  then show ?thesis using wf_demo numpy_demo d s2 z by blast
qed



text \<open>
  C4, as amended. Every construction with \<open>device=None\<close> reads the process-wide default
  device at that time and passes it to the base constructor. A tensor constructed from host
  data with \<open>device=None\<close> is placed on the default device read at the time of its
  construction; writing the default afterwards does not change the device of the tensor,
  nor does any later sequence of operations that does not assign to it; a construction from
  host data after the write is placed on the new default. A construction that wraps an
  existing handle, as \<open>detach\<close> does, stays on the device its data resides on, whatever the
  default is.
\<close>

theorem default_device_at_construction:
  assumes "wf_runtime s" "Tensor_new s (FromArray a) dt None = (t, s1)"
  shows "Tensor_new sa data dta None = Tensor_new sa data dta (Some (get_default_device sa))
       \<and> device_of s1 t = Some (default_device s)
       \<and> device_of (set_default_device d' s1) t = Some (default_device s)
       \<and> (\<forall>t2 s2. Tensor_new (set_default_device d' s1) (FromArray b) dt' None = (t2, s2) \<longrightarrow>
             device_of s2 t2 = Some d' \<and> device_of s2 t = Some (default_device s))
       \<and> (\<forall>xs s2. (\<forall>x \<in> set xs. assigned x \<noteq> Some t) \<and> exec_ops s1 xs = Some s2 \<longrightarrow>
             device_of s2 t = Some (default_device s))
       \<and> (handles sa h = Some r \<and> raw_tensors sa r = Some x \<longrightarrow>
             device_of (snd (Tensor_new sa (FromHandle h) dta None))
                       (fst (Tensor_new sa (FromHandle h) dta None)) = Some (rt_device x))"
proof -
  let ?x = "\<lparr>rt_array = (case dt of None \<Rightarrow> a | Some d \<Rightarrow> astype (convert_kernel s) d a),
             rt_device = default_device s\<rparr>"
  have t: "t = next_ref s" and raw: "raw_of s1 t = Some ?x" and nxt: "next_ref s1 = next_ref s + 3"
    using raw_of_Tensor_new_array[OF assms(2)] by simp_all
  have wf1: "wf_runtime s1" using Tensor_new_array_wf[OF assms(1), of "FromArray a" dt None] assms(2) by simp
  have lt: "t < next_ref s1" using t nxt by simp
  have c1: "device_of s1 t = Some (default_device s)" using raw by (simp add: device_of_def)
  have c2: "device_of (set_default_device d' s1) t = Some (default_device s)"
    using raw by (simp add: device_of_def raw_of_def set_default_device_def)
  have frame_dev: "device_of s2 t = Some (default_device s)"
    if "exec_ops s1 xs = Some s2" "\<forall>x \<in> set xs. assigned x \<noteq> Some t" for xs s2
  proof -
    from exec_ops_frame[OF wf1 that(1) lt that(2)]
    have "frame s1 s2" "facades s2 t = facades s1 t" by simp_all
    from raw_of_frame[OF wf1 this raw] show ?thesis by (simp add: device_of_def)
  qed
  have c3: "device_of s2 t2 = Some d' \<and> device_of s2 t = Some (default_device s)"
    if n: "Tensor_new (set_default_device d' s1) (FromArray b) dt' None = (t2, s2)" for t2 s2
  proof -
    from raw_of_Tensor_new_array(2)[OF n] have "device_of s2 t2 = Some d'"
      by (simp add: device_of_def set_default_device_def)
    moreover have "exec_ops s1 [OpSetDefaultDevice d', OpNew (FromArray b) dt' None] = Some s2"
      using n by simp
    from frame_dev[OF this] have "device_of s2 t = Some (default_device s)" by simp
    ultimately show ?thesis by simp
  qed
  have c0: "Tensor_new sa data dta None = Tensor_new sa data dta (Some (get_default_device sa))"
    by (simp add: Tensor_new_def Tensor_init_def new_object_def alloc_def
        get_default_device_def)
  have c4: "device_of (snd (Tensor_new sa (FromHandle h) dta None))
                      (fst (Tensor_new sa (FromHandle h) dta None)) = Some (rt_device x)"
    if "handles sa h = Some r" "raw_tensors sa r = Some x"
    using that by (simp add: store_defs device_of_def raw_of_def Let_def)
  show ?thesis using c0 c1 c2 c3 c4 frame_dev by blast
qed


theorem default_device_at_construction_witness:
  "wf_runtime (empty_runtime ''cpu0'' (\<lambda>src dst x. x) :: int runtime)
   \<and> Tensor_new (empty_runtime ''cpu0'' (\<lambda>src dst x. x)) (FromArray demo_array) None None
       = (0, demo_runtime)
   \<and> device_of demo_runtime 0 = Some ''cpu0''
   \<and> device_of (set_default_device ''gpu0'' demo_runtime) 0 = Some ''cpu0''
   \<and> (\<exists>t2 s2. Tensor_new (set_default_device ''gpu0'' demo_runtime) (FromArray demo_array) None None
                 = (t2, s2)
          \<and> device_of s2 t2 = Some ''gpu0'' \<and> device_of s2 0 = Some ''cpu0'')
   \<and> handles (set_default_device ''gpu0'' demo_runtime) 2 = Some 1
   \<and> raw_tensors (set_default_device ''gpu0'' demo_runtime) 1
       = Some \<lparr>rt_array = demo_array, rt_device = ''cpu0''\<rparr>
   \<and> device_of
        (snd (Tensor_new (set_default_device ''gpu0'' demo_runtime) (FromHandle 2) None None))
        (fst (Tensor_new (set_default_device ''gpu0'' demo_runtime) (FromHandle 2) None None))
       = Some ''cpu0''"
proof -
  have new: "Tensor_new (empty_runtime ''cpu0'' (\<lambda>src dst x. x)) (FromArray demo_array) None None
       = (0, demo_runtime)"
    by (simp add: demo_runtime_def) (simp add: store_defs empty_runtime_def Let_def)
  obtain t2 s2 where n2:
    "Tensor_new (set_default_device ''gpu0'' demo_runtime) (FromArray demo_array) None None = (t2, s2)"
    by (cases "Tensor_new (set_default_device ''gpu0'' demo_runtime) (FromArray demo_array) None None")
  have h: "handles (set_default_device ''gpu0'' demo_runtime) 2 = Some 1"
    and r: "raw_tensors (set_default_device ''gpu0'' demo_runtime) 1
       = Some \<lparr>rt_array = demo_array, rt_device = ''cpu0''\<rparr>"
    by (simp_all add: demo_eq set_default_device_def)
  from default_device_at_construction
         [OF wf_empty new, where d' = "''gpu0''" and b = demo_array and dt' = None
            and sa = "set_default_device ''gpu0'' demo_runtime" and data = "FromHandle 0"
            and dta = None and h = 2 and r = 1
            and x = "\<lparr>rt_array = demo_array, rt_device = ''cpu0''\<rparr>"] n2 h r
  have "device_of demo_runtime 0 = Some ''cpu0''"
    "device_of (set_default_device ''gpu0'' demo_runtime) 0 = Some ''cpu0''"
    "device_of s2 t2 = Some ''gpu0''" "device_of s2 0 = Some ''cpu0''"
    "device_of
        (snd (Tensor_new (set_default_device ''gpu0'' demo_runtime) (FromHandle 2) None None))
        (fst (Tensor_new (set_default_device ''gpu0'' demo_runtime) (FromHandle 2) None None))
       = Some ''cpu0''"
    by (simp_all add: empty_runtime_def)
  then show ?thesis using wf_empty new n2 h r by blast
qed

text \<open>
  The claim as first stated, for every construction with \<open>device=None\<close>, fails where the
  data is an existing handle: with the default set to \<open>gpu0\<close>, detaching a tensor that
  lives on \<open>cpu0\<close> constructs the result through \<open>__init__\<close> with \<open>device=None\<close>, and the
  result is on \<open>cpu0\<close>, not on the default.
\<close>

theorem detach_ignores_default_device_counterexample:
  "get_default_device (set_default_device ''gpu0'' demo_runtime) = ''gpu0''
   \<and> detach (set_default_device ''gpu0'' demo_runtime) 0 \<noteq> None
   \<and> device_of (snd (the (detach (set_default_device ''gpu0'' demo_runtime) 0)))
                (fst (the (detach (set_default_device ''gpu0'' demo_runtime) 0)))
       = Some ''cpu0''
   \<and> device_of (snd (the (detach (set_default_device ''gpu0'' demo_runtime) 0)))
                (fst (the (detach (set_default_device ''gpu0'' demo_runtime) 0)))
       \<noteq> Some (get_default_device (set_default_device ''gpu0'' demo_runtime))"
  by (simp add: demo_eq detach_def store_defs device_of_def raw_of_def Let_def
      eval_nat_numeral)

text \<open>
  C5. \<open>hash(t)\<close> is \<open>id(t)\<close>; two facades have the same hash exactly when they are the same
  object; two tensors constructed one after the other from the same data hold equal values
  and still hash differently.
\<close>

theorem hash_is_identity:
  "Tensor_hash t = py_id t
   \<and> (Tensor_hash t1 = Tensor_hash t2 \<longleftrightarrow> t1 = t2)
   \<and> (Tensor_new s (FromArray a) dt dev = (t1, s1) \<and> Tensor_new s1 (FromArray a) dt dev = (t2, s2) \<longrightarrow>
        numpy s2 t1 = numpy s2 t2 \<and> numpy s2 t1 \<noteq> None \<and> t1 \<noteq> t2 \<and> Tensor_hash t1 \<noteq> Tensor_hash t2)"
  by (auto simp: Tensor_hash_def py_id_def store_defs numpy_def raw_of_def Let_def split: option.splits)


theorem hash_is_identity_witness:
  "Tensor_new (empty_runtime ''cpu0'' (\<lambda>src dst x. x)) (FromArray demo_array) None None
       = (0, demo_runtime)
   \<and> (\<exists>s2. Tensor_new demo_runtime (FromArray demo_array) None None = (3, s2)
          \<and> numpy s2 0 = numpy s2 3 \<and> numpy s2 0 = Some demo_array
          \<and> Tensor_hash 0 \<noteq> Tensor_hash 3)"
proof -
  have new: "Tensor_new (empty_runtime ''cpu0'' (\<lambda>src dst x. x)) (FromArray demo_array) None None
       = (0, demo_runtime)"
    by (simp add: demo_runtime_def) (simp add: store_defs empty_runtime_def Let_def)
  obtain s2 where n2: "Tensor_new demo_runtime (FromArray demo_array) None None = (3, s2)"
    by (simp add: demo_eq store_defs Let_def eval_nat_numeral)
  from hash_is_identity [of 0 0 3 "empty_runtime ''cpu0'' (\<lambda>src dst x. x)" demo_array None None
      demo_runtime s2] new n2
  have "numpy s2 0 = numpy s2 3" "Tensor_hash 0 \<noteq> Tensor_hash 3"
    by blast+
  moreover have "numpy s2 0 = Some demo_array"
    using n2 by (auto simp add: demo_eq store_defs Let_def eval_nat_numeral numpy_def raw_of_def)
  ultimately show ?thesis using new n2 by blast
qed


text \<open>
  C9. Reading, assigning and deleting \<open>requires_grad\<close> raise \<open>AttributeError\<close> for every
  tensor and every assigned value, and leave the store as it was, so that no later
  operation can observe an attempted access.
\<close>

theorem requires_grad_reserved:
  "requires_grad_get s t = (Inl (AttributeError ''requires_grad is reserved for future use''), s)
   \<and> requires_grad_set s t v = (Inl (AttributeError ''requires_grad is reserved for future use''), s)
   \<and> requires_grad_del s t = (Inl (AttributeError ''requires_grad is reserved for future use''), s)"
  by (simp add: requires_grad_get_def requires_grad_set_def requires_grad_del_def)

subsection \<open>Random sampling\<close>

text \<open>
  C10. When \<open>low \<ge> high\<close>, \<open>uniform\<close> raises \<open>AssertionError\<close> and the world is unchanged: no
  seed has been drawn, no tensor constructed and no operator applied. When \<open>low < high\<close>, it
  draws one seed, constructs the size tensor, applies the operator, and returns
  \<open>low + (high - low) * u\<close> for each sample \<open>u\<close>, in the requested shape, which is \<open>(1,)\<close> when
  \<open>size\<close> is \<open>None\<close>.
\<close>

theorem uniform_assert_then_sample:
  "(high \<le> low \<longrightarrow>
      uniform next_seed us low high sz w =
        (Inl (AssertionError ''Uniform is not defined when low >= high''), w))
   \<and> (low < high \<longrightarrow>
        (\<exists>seed g shp.
           next_seed (seed_gen w) = (seed, g)
           \<and> shp = (case sz of None \<Rightarrow> [1] | Some s \<Rightarrow> s)
           \<and> uniform next_seed us low high sz w =
               (Inr \<lparr>arr_shape = shp, arr_dtype = ''float32'',
                     arr_values = map (\<lambda>i. low + (high - low) * us seed i) [0..<prod_list shp]\<rparr>,
                \<lparr>seed_gen = g,
                 events = events w @ [DrawSeed seed, ConstructTensor shp ''int32'',
                                      ApplyUniformRNG seed shp]\<rparr>)))
   \<and> (low < high \<longrightarrow>
        (\<exists>r w'. uniform next_seed us low high None w = (Inr r, w')
           \<and> arr_shape r = [1] \<and> length (arr_values r) = 1))"
proof (intro conjI impI)
  assume "high \<le> low"
  then show "uniform next_seed us low high sz w =
        (Inl (AssertionError ''Uniform is not defined when low >= high''), w)"
    by (simp add: uniform_def)
next
  assume lt: "low < high"
  obtain seed g where sg: "next_seed (seed_gen w) = (seed, g)"
    by (cases "next_seed (seed_gen w)")
  then show "\<exists>seed g shp.
           next_seed (seed_gen w) = (seed, g)
           \<and> shp = (case sz of None \<Rightarrow> [1] | Some s \<Rightarrow> s)
           \<and> uniform next_seed us low high sz w =
               (Inr \<lparr>arr_shape = shp, arr_dtype = ''float32'',
                     arr_values = map (\<lambda>i. low + (high - low) * us seed i) [0..<prod_list shp]\<rparr>,
                \<lparr>seed_gen = g,
                 events = events w @ [DrawSeed seed, ConstructTensor shp ''int32'',
                                      ApplyUniformRNG seed shp]\<rparr>)"
    using lt by (simp add: uniform_def Let_def emit_def affine_def apply_UniformRNG_def)
  show "\<exists>r w'. uniform next_seed us low high None w = (Inr r, w')
           \<and> arr_shape r = [1] \<and> length (arr_values r) = 1"
    using lt sg by (simp add: uniform_def Let_def emit_def affine_def apply_UniformRNG_def)
qed

theorem uniform_assert_then_sample_witness:
  "(1::real) \<le> 1
   \<and> uniform (\<lambda>g. (g, Suc g)) (\<lambda>seed i. 1 / 2) 1 1 None \<lparr>seed_gen = 7, events = []\<rparr> =
       (Inl (AssertionError ''Uniform is not defined when low >= high''),
        \<lparr>seed_gen = 7, events = []\<rparr>)
   \<and> (2::real) < 4
   \<and> uniform (\<lambda>g. (g, Suc g)) (\<lambda>seed i. 1 / 2) 2 4 None \<lparr>seed_gen = 7, events = []\<rparr> =
       (Inr \<lparr>arr_shape = [1], arr_dtype = ''float32'', arr_values = [3]\<rparr>,
        \<lparr>seed_gen = 8,
         events = [DrawSeed 7, ConstructTensor [1] ''int32'', ApplyUniformRNG 7 [1]]\<rparr>)"
  using uniform_assert_then_sample
      [of 1 1 "\<lambda>g. (g, Suc g)" "\<lambda>seed i. 1 / 2" None "\<lparr>seed_gen = 7, events = []\<rparr>"]
    uniform_assert_then_sample
      [of 4 2 "\<lambda>g. (g, Suc g)" "\<lambda>seed i. 1 / 2" None "\<lparr>seed_gen = 7, events = []\<rparr>"]
  by simp

subsection \<open>The dataflow graph\<close>

text \<open>
  C1. The program of \<open>test_io\<close>: a graph with one input node fed by a pull callback that
  returns \<open>x\<close>, and one output node wired to it that delivers into a future; compiling that
  output and running the executable once completes the future with exactly \<open>x\<close>, whatever
  the value, the device, the dtype and the operator kernels are.
\<close>

theorem test_io_delivers_input:
  "test_io krn x dev dt = Inr x"
  by (simp add: test_io_def Graph_def input_callback_def output_callback_def add_node_def
      compile_def closure_def execute_def run_node_def future_result_def Let_def)


end
